theory Spec2Isabelle
  imports Complex_Main "HOL-Library.AList"
begin

section \<open>JavaScript values\<close>

text \<open>
  The invoice resource (\<^verbatim>\<open>src/resources/invoices.ts\<close>) is TypeScript, so at run time
  every argument is a JavaScript value and every presence check is a truthiness test.
  The values that a request can carry are \<^verbatim>\<open>undefined\<close>, \<^verbatim>\<open>null\<close>, booleans, numbers,
  strings, date objects, arrays and plain data objects.

  No arithmetic is done on numbers: they are tested for truthiness and passed on. A
  finite double is held as the rational it denotes (\<open>Fin 0\<close> is \<^verbatim>\<open>+0\<close>). A date object
  is held as its time value, \<^verbatim>\<open>NaN\<close> for an invalid date.

  An object is a plain object (its prototype is \<^verbatim>\<open>Object.prototype\<close>) whose own
  properties are data properties holding values of this type, so none of them is
  callable. It is an association list read through \<open>map_of\<close>: the list stands for the
  finite map from own property names to values; the enumeration order of properties is
  not modelled.
\<close>

datatype jsnum = NaN | PosInf | NegInf | NegZero | Fin rat

datatype jsval =
    JUndefined
  | JNull
  | JBool bool
  | JNum jsnum
  | JStr string
  | JDate jsnum
  | JArr "jsval list"
  | JObj "(string \<times> jsval) list"

type_synonym jsobj = "(string \<times> jsval) list"

datatype js_error = TypeError

text \<open>\<^verbatim>\<open>ToBoolean\<close>: the falsy values are \<^verbatim>\<open>undefined\<close>, \<^verbatim>\<open>null\<close>, \<^verbatim>\<open>false\<close>,
  \<^verbatim>\<open>+0\<close>, \<^verbatim>\<open>-0\<close>, \<^verbatim>\<open>NaN\<close> and the empty string; every object is truthy.\<close>

fun num_truthy :: "jsnum \<Rightarrow> bool" where
  "num_truthy NaN = False"
| "num_truthy NegZero = False"
| "num_truthy (Fin q) = (q \<noteq> 0)"
| "num_truthy PosInf = True"
| "num_truthy NegInf = True"

fun truthy :: "jsval \<Rightarrow> bool" where
  "truthy JUndefined = False"
| "truthy JNull = False"
| "truthy (JBool b) = b"
| "truthy (JNum n) = num_truthy n"
| "truthy (JStr s) = (s \<noteq> [])"
| "truthy (JDate t) = True"
| "truthy (JArr xs) = True"
| "truthy (JObj props) = True"

fun is_primitive :: "jsval \<Rightarrow> bool" where
  "is_primitive (JDate t) = False"
| "is_primitive (JArr xs) = False"
| "is_primitive (JObj props) = False"
| "is_primitive v = True"

text \<open>\<^verbatim>\<open>a || b\<close>.\<close>

definition js_or :: "jsval \<Rightarrow> jsval \<Rightarrow> jsval" where
  "js_or a b = (if truthy a then a else b)"

text \<open>Reading an own property of an object; a missing property reads as
  \<^verbatim>\<open>undefined\<close>.\<close>

definition get_field :: "jsobj \<Rightarrow> string \<Rightarrow> jsval" where
  "get_field props k = (case map_of props k of None \<Rightarrow> JUndefined | Some v \<Rightarrow> v)"

text \<open>Writing a property, and the object spread \<^verbatim>\<open>{ ...target, ...source }\<close>: the
  properties of \<open>source\<close> are written over those of \<open>target\<close>.\<close>

definition obj_set :: "jsobj \<Rightarrow> string \<Rightarrow> jsval \<Rightarrow> jsobj" where
  "obj_set props k v = AList.update k v props"

definition obj_spread :: "jsobj \<Rightarrow> jsobj \<Rightarrow> jsobj" where
  "obj_spread target source = AList.merge target source"

subsection \<open>Conversions to a number and to a string\<close>

text \<open>
  \<^verbatim>\<open>Number(v)\<close> and the string conversion of a template literal \<^verbatim>\<open>`${v}`\<close> are fixed by
  the language. Three builtins that never throw are written out only where their
  result is an exact decimal and are otherwise left to the host: reading a string as a
  number, printing a number, and printing a date.
\<close>

record host =
  HostStringToNumber :: "string \<Rightarrow> jsnum"
  HostNumberToString :: "rat \<Rightarrow> string"
  HostDateToString :: "rat \<Rightarrow> string"

definition digit_value :: "char \<Rightarrow> nat option" where
  "digit_value c = map_of (zip ''0123456789'' [0, 1, 2, 3, 4, 5, 6, 7, 8, 9]) c"

fun decimal_value :: "nat \<Rightarrow> string \<Rightarrow> nat option" where
  "decimal_value acc [] = Some acc"
| "decimal_value acc (c # cs) =
     (case digit_value c of None \<Rightarrow> None | Some d \<Rightarrow> decimal_value (10 * acc + d) cs)"

definition is_letter :: "char \<Rightarrow> bool" where
  "is_letter c = (c \<in> set ''abcdefghijklmnopqrstuvwxyzABCDEFGHIJKLMNOPQRSTUVWXYZ'')"

definition is_digit :: "char \<Rightarrow> bool" where
  "is_digit c = (digit_value c \<noteq> None)"

text \<open>
  \<^verbatim>\<open>StringToNumber\<close>: the empty string is \<^verbatim>\<open>+0\<close>; a string of at most fifteen decimal
  digits is the integer it spells (which a double holds exactly). Every numeric literal
  has a decimal digit or spells \<^verbatim>\<open>Infinity\<close>, so a string that has a letter, no digit
  and no \<^verbatim>\<open>I\<close> is not numeric and gives \<^verbatim>\<open>NaN\<close>. Signs, fractions, exponents, white
  space and the other radixes are the host's.
\<close>

definition StringToNumber :: "host \<Rightarrow> string \<Rightarrow> jsnum" where
  "StringToNumber h s =
     (if s = [] then Fin 0
      else case (if length s \<le> 15 then decimal_value 0 s else None) of
             Some n \<Rightarrow> Fin (of_nat n)
           | None \<Rightarrow>
               if list_ex is_letter s \<and> \<not> list_ex (\<lambda>c. is_digit c \<or> c = CHR ''I'') s then NaN
               else HostStringToNumber h s)"

fun digits :: "nat \<Rightarrow> string" where
  "digits n =
     (if n < 10 then [''0123456789'' ! n]
      else digits (n div 10) @ [''0123456789'' ! (n mod 10)])"

declare digits.simps [simp del]

text \<open>
  \<^verbatim>\<open>Number::toString\<close>: the special values have fixed names, and an integer of magnitude
  below \<^verbatim>\<open>2^53\<close> prints as its decimal digits. Other finite numbers are the host's.
\<close>

definition NumberToString :: "host \<Rightarrow> jsnum \<Rightarrow> string" where
  "NumberToString h n =
     (case n of
        NaN \<Rightarrow> ''NaN''
      | PosInf \<Rightarrow> ''Infinity''
      | NegInf \<Rightarrow> ''-Infinity''
      | NegZero \<Rightarrow> ''0''
      | Fin q \<Rightarrow>
          if of_int \<lfloor>q\<rfloor> = q \<and> \<bar>q\<bar> < 9007199254740992
          then (if q < 0 then ''-'' else []) @ digits (nat \<bar>\<lfloor>q\<rfloor>\<bar>)
          else HostNumberToString h q)"

definition DateToString :: "host \<Rightarrow> jsnum \<Rightarrow> string" where
  "DateToString h t = (case t of Fin q \<Rightarrow> HostDateToString h q | _ \<Rightarrow> ''Invalid Date'')"

text \<open>\<^verbatim>\<open>Array.prototype.join\<close> with the separator \<^verbatim>\<open>,\<close>.\<close>

fun join_comma :: "string list \<Rightarrow> string" where
  "join_comma [] = []"
| "join_comma [s] = s"
| "join_comma (s # t # ss) = s @ '','' @ join_comma (t # ss)"

text \<open>
  \<^verbatim>\<open>ToString\<close>, as a template literal applies it. A date prints through
  \<^verbatim>\<open>Date.prototype.toString\<close>. An array prints through \<^verbatim>\<open>join\<close>, which takes
  \<^verbatim>\<open>undefined\<close> and \<^verbatim>\<open>null\<close> elements as empty and converts the others. A plain object is
  converted by \<^verbatim>\<open>OrdinaryToPrimitive\<close>, which calls \<^verbatim>\<open>toString\<close> and then \<^verbatim>\<open>valueOf\<close>: an
  own \<^verbatim>\<open>toString\<close> property is not callable and is passed over, after which neither an
  own \<^verbatim>\<open>valueOf\<close> (not callable) nor the inherited one (it returns the object) gives a
  primitive, and the conversion throws; without an own \<^verbatim>\<open>toString\<close> the inherited one
  gives \<^verbatim>\<open>[object Object]\<close>.
\<close>

fun ToString :: "host \<Rightarrow> jsval \<Rightarrow> js_error + string"
  and elements_to_strings :: "host \<Rightarrow> jsval list \<Rightarrow> js_error + string list"
where
  "ToString h JUndefined = Inr ''undefined''"
| "ToString h JNull = Inr ''null''"
| "ToString h (JBool b) = Inr (if b then ''true'' else ''false'')"
| "ToString h (JNum n) = Inr (NumberToString h n)"
| "ToString h (JStr s) = Inr s"
| "ToString h (JDate t) = Inr (DateToString h t)"
| "ToString h (JArr xs) =
     (case elements_to_strings h xs of Inl e \<Rightarrow> Inl e | Inr ss \<Rightarrow> Inr (join_comma ss))"
| "ToString h (JObj props) =
     (if map_of props ''toString'' = None then Inr ''[object Object]'' else Inl TypeError)"
| "elements_to_strings h [] = Inr []"
| "elements_to_strings h (x # xs) =
     (case (if x = JUndefined \<or> x = JNull then Inr [] else ToString h x) of
        Inl e \<Rightarrow> Inl e
      | Inr s \<Rightarrow>
          (case elements_to_strings h xs of Inl e \<Rightarrow> Inl e | Inr ss \<Rightarrow> Inr (s # ss)))"

text \<open>
  \<^verbatim>\<open>Number(v)\<close>. A date gives its time value. An array or a plain object is first
  converted to a primitive, \<^verbatim>\<open>valueOf\<close> before \<^verbatim>\<open>toString\<close>: \<^verbatim>\<open>valueOf\<close> never gives a
  primitive here, so the result is that of the string conversion, read as a number,
  and the conversion throws where the string conversion does.
\<close>

fun Number :: "host \<Rightarrow> jsval \<Rightarrow> js_error + jsnum" where
  "Number h JUndefined = Inr NaN"
| "Number h JNull = Inr (Fin 0)"
| "Number h (JBool b) = Inr (if b then Fin 1 else Fin 0)"
| "Number h (JNum n) = Inr n"
| "Number h (JStr s) = Inr (StringToNumber h s)"
| "Number h (JDate t) = Inr t"
| "Number h v = (case ToString h v of Inl e \<Rightarrow> Inl e | Inr s \<Rightarrow> Inr (StringToNumber h s))"

section \<open>Requests, the transport and the outcome of an operation\<close>

text \<open>
  \<^verbatim>\<open>this.api.get\<close>, \<^verbatim>\<open>this.api.post\<close> and \<^verbatim>\<open>this.api.patch\<close> take one argument
  \<^verbatim>\<open>{ url, data }\<close> and return a promise. The transport is a parameter; \<open>'p\<close> is the
  type of the promises it returns. \<open>data = None\<close> is a request object without a
  \<^verbatim>\<open>data\<close> property.
\<close>

record request =
  url :: string
  data :: "jsval option"

record 'p transport =
  api_get :: "request \<Rightarrow> 'p"
  api_post :: "request \<Rightarrow> 'p"
  api_patch :: "request \<Rightarrow> 'p"

datatype http_method = GET | POST | PATCH

type_synonym call = "http_method \<times> request"

text \<open>
  Modelled from the spec: the error values of the resource base class
  (\<^verbatim>\<open>src/resources/util/interface\<close> is not part of the sources), the "missing identifier"
  error \<^verbatim>\<open>this.MISSING_ID_ERROR\<close> and the "field mandatory" error
  \<^verbatim>\<open>this.FIELD_MANDATORY_ERROR(name)\<close> parameterized by the field name. \<open>Message\<close> is a
  rejection with a plain string, as \<^verbatim>\<open>create\<close> does.
\<close>

datatype rejection =
    MISSING_ID_ERROR
  | FIELD_MANDATORY_ERROR string
  | Message string

text \<open>
  An operation ends in one of three ways: it returns a rejected promise, it throws, or
  it returns the promise that the transport returned. Next to the outcome, each
  operation gives the list of transport calls it made, in order.
\<close>

datatype 'p outcome =
    Rejected rejection
  | Thrown js_error
  | Returned 'p

section \<open>The invoice operations\<close>

subsection \<open>create\<close>

text \<open>\<^verbatim>\<open>line_items?.length\<close>, for a truthy \<^verbatim>\<open>line_items\<close>.\<close>

fun js_length :: "jsval \<Rightarrow> jsval" where
  "js_length (JArr xs) = JNum (Fin (of_nat (length xs)))"
| "js_length (JStr s) = JNum (Fin (of_nat (length s)))"
| "js_length (JObj props) = get_field props ''length''"
| "js_length v = JUndefined"

text \<open>\<^verbatim>\<open>v === 0\<close>: strict equality with the number zero, which both zeros satisfy.\<close>

definition is_zero :: "jsval \<Rightarrow> bool" where
  "is_zero v = (v = JNum (Fin 0) \<or> v = JNum NegZero)"

text \<open>The values that \<^verbatim>\<open>for (... of line_items)\<close> visits: the elements of an array, the
  characters of a string; any other value is not iterable and the loop throws.\<close>

fun iterate :: "jsval \<Rightarrow> jsval list option" where
  "iterate (JArr xs) = Some xs"
| "iterate (JStr s) = Some (map (\<lambda>c. JStr [c]) s)"
| "iterate v = None"

text \<open>The destructuring \<^verbatim>\<open>const { item_id, name, amount } = item\<close>: it throws on
  \<^verbatim>\<open>undefined\<close> and \<^verbatim>\<open>null\<close>, reads the three properties of an object, and finds none of
  them on a boolean, a number, a string or an array.\<close>

fun destructure_item :: "jsval \<Rightarrow> (jsval \<times> jsval \<times> jsval) option" where
  "destructure_item JUndefined = None"
| "destructure_item JNull = None"
| "destructure_item (JObj props) =
     Some (get_field props ''item_id'', get_field props ''name'', get_field props ''amount'')"
| "destructure_item v = Some (JUndefined, JUndefined, JUndefined)"

definition either_name_msg :: string where
  "either_name_msg = ''Ether `item_id` or `name` must be provided but found none.''"

definition either_amount_msg :: string where
  "either_amount_msg = ''Ether `item_id` or `amount` must be provided but found none.''"

definition either_customer_msg :: string where
  "either_customer_msg = ''Ether `customer_id` or `customer` must be provided but found none.''"

text \<open>The loop over the line items: \<open>None\<close> when it runs to its end, otherwise the
  outcome with which it leaves \<^verbatim>\<open>create\<close>.\<close>

fun line_items_loop :: "jsval list \<Rightarrow> 'p outcome option" where
  "line_items_loop [] = None"
| "line_items_loop (item # rest) =
     (case destructure_item item of
        None \<Rightarrow> Some (Thrown TypeError)
      | Some (item_id, name, amount) \<Rightarrow>
          if \<not> truthy item_id \<and> \<not> truthy name then Some (Rejected (Message either_name_msg))
          else if \<not> truthy item_id \<and> \<not> truthy amount then Some (Rejected (Message either_amount_msg))
          else line_items_loop rest)"

definition create :: "'p transport \<Rightarrow> string \<Rightarrow> jsobj \<Rightarrow> 'p outcome \<times> call list" where
  "create api resourceUrl params =
     (let line_items = get_field params ''line_items'';
          customer_id = get_field params ''customer_id'';
          customer = get_field params ''customer''
      in if \<not> truthy customer_id \<and> \<not> truthy customer then
           (Rejected (Message either_customer_msg), [])
         else if \<not> truthy line_items \<or> is_zero (js_length line_items) then
           (Rejected (FIELD_MANDATORY_ERROR ''line_items''), [])
         else
           (case iterate line_items of
              None \<Rightarrow> (Thrown TypeError, [])
            | Some items \<Rightarrow>
                (case line_items_loop items of
                   Some out \<Rightarrow> (out, [])
                 | None \<Rightarrow>
                     let req = \<lparr>url = resourceUrl,
                                data = Some (JObj (obj_spread [(''type'', JStr ''invoice'')] params))\<rparr>
                     in (Returned (api_post api req), [(POST, req)]))))"

subsection \<open>fetchAll\<close>

text \<open>
  \<^verbatim>\<open>normalizeDate\<close> comes from \<^verbatim>\<open>src/helper\<close>, which is not part of the sources: it is
  a parameter. The argument of \<^verbatim>\<open>fetchAll\<close> is optional and defaults to the empty
  object. The method is not \<^verbatim>\<open>async\<close>: when \<^verbatim>\<open>Number(count)\<close> or \<^verbatim>\<open>Number(skip)\<close>
  throws, the call throws before the transport is reached.
\<close>

definition query_or_default :: "jsobj option \<Rightarrow> jsobj" where
  "query_or_default arg = (case arg of None \<Rightarrow> [] | Some q \<Rightarrow> q)"

definition fetchAll ::
  "host \<Rightarrow> (jsval \<Rightarrow> jsval) \<Rightarrow> 'p transport \<Rightarrow> string \<Rightarrow> jsobj option \<Rightarrow> 'p outcome \<times> call list"
where
  "fetchAll h normalizeDate api resourceUrl arg =
     (let query = query_or_default arg;
          from0 = get_field query ''from'';
          to0 = get_field query ''to'';
          count0 = get_field query ''count'';
          skip0 = get_field query ''skip'';
          from1 = (if truthy from0 then normalizeDate from0 else from0);
          to1 = (if truthy to0 then normalizeDate to0 else to0)
      in case Number h count0 of
           Inl e \<Rightarrow> (Thrown e, [])
         | Inr c \<Rightarrow>
             (case Number h skip0 of
                Inl e \<Rightarrow> (Thrown e, [])
              | Inr s \<Rightarrow>
                  let count1 = js_or (JNum c) (JNum (Fin 10));
                      skip1 = js_or (JNum s) (JNum (Fin 0));
                      req = \<lparr>url = resourceUrl,
                             data = Some (JObj (obj_set (obj_set (obj_set (obj_set
                                      (obj_spread [] query)
                                      ''from'' from1) ''to'' to1) ''count'' count1) ''skip'' skip1))\<rparr>
                  in (Returned (api_get api req), [(GET, req)])))"

subsection \<open>fetch, cancel, edit, notify\<close>

text \<open>The URL of each request is a template literal; where the conversion of an
  interpolated value throws, the method throws before the transport is reached.\<close>

definition fetch :: "host \<Rightarrow> 'p transport \<Rightarrow> string \<Rightarrow> jsval \<Rightarrow> 'p outcome \<times> call list" where
  "fetch h api resourceUrl invoiceId =
     (if \<not> truthy invoiceId then (Rejected MISSING_ID_ERROR, [])
      else case ToString h invoiceId of
             Inl e \<Rightarrow> (Thrown e, [])
           | Inr i \<Rightarrow>
               let req = \<lparr>url = resourceUrl @ ''/'' @ i, data = None\<rparr>
               in (Returned (api_get api req), [(GET, req)]))"

definition cancel :: "host \<Rightarrow> 'p transport \<Rightarrow> string \<Rightarrow> jsval \<Rightarrow> 'p outcome \<times> call list" where
  "cancel h api resourceUrl invoiceId =
     (if \<not> truthy invoiceId then (Rejected MISSING_ID_ERROR, [])
      else case ToString h invoiceId of
             Inl e \<Rightarrow> (Thrown e, [])
           | Inr i \<Rightarrow>
               let req = \<lparr>url = resourceUrl @ ''/'' @ i @ ''/cancel'', data = None\<rparr>
               in (Returned (api_post api req), [(POST, req)]))"

definition edit ::
  "host \<Rightarrow> 'p transport \<Rightarrow> string \<Rightarrow> jsval \<Rightarrow> jsval \<Rightarrow> 'p outcome \<times> call list"
where
  "edit h api resourceUrl invoiceId params =
     (if \<not> truthy invoiceId then (Rejected MISSING_ID_ERROR, [])
      else if \<not> truthy params then (Rejected (FIELD_MANDATORY_ERROR ''Params''), [])
      else case ToString h invoiceId of
             Inl e \<Rightarrow> (Thrown e, [])
           | Inr i \<Rightarrow>
               let req = \<lparr>url = resourceUrl @ ''/'' @ i, data = Some params\<rparr>
               in (Returned (api_patch api req), [(PATCH, req)]))"

definition notify ::
  "host \<Rightarrow> 'p transport \<Rightarrow> string \<Rightarrow> jsval \<Rightarrow> jsval \<Rightarrow> 'p outcome \<times> call list"
where
  "notify h api resourceUrl invoiceId medium =
     (if \<not> truthy invoiceId then (Rejected MISSING_ID_ERROR, [])
      else case ToString h invoiceId of
             Inl e \<Rightarrow> (Thrown e, [])
           | Inr i \<Rightarrow>
               (case ToString h medium of
                  Inl e \<Rightarrow> (Thrown e, [])
                | Inr m \<Rightarrow>
                    let req = \<lparr>url = resourceUrl @ ''/'' @ i @ ''/notify_by/'' @ m, data = None\<rparr>
                    in (Returned (api_post api req), [(POST, req)])))"

section \<open>Properties named by the specification\<close>

text \<open>The conditions that the specification puts on a draft, in its own words: a
  customer identity is present, and a line item resolves its identity and its price.\<close>

definition has_customer_identity :: "jsobj \<Rightarrow> bool" where
  "has_customer_identity params =
     (truthy (get_field params ''customer_id'') \<or> truthy (get_field params ''customer''))"

definition exactly_one_identity :: "jsobj \<Rightarrow> bool" where
  "exactly_one_identity params =
     (truthy (get_field params ''customer_id'') \<noteq> truthy (get_field params ''customer''))"

definition item_ok :: "jsval \<Rightarrow> bool" where
  "item_ok item =
     (case destructure_item item of
        None \<Rightarrow> False
      | Some (item_id, name, amount) \<Rightarrow>
          (truthy item_id \<or> truthy name) \<and> (truthy item_id \<or> truthy amount))"

definition valid_draft :: "jsobj \<Rightarrow> bool" where
  "valid_draft params =
     (has_customer_identity params \<and>
      (case get_field params ''line_items'' of
         JArr items \<Rightarrow> items \<noteq> [] \<and> list_all item_ok items
       | _ \<Rightarrow> False))"

section \<open>Example inputs\<close>

text \<open>A transport that answers every call with the call itself, so that the promise an
  operation returns shows which request produced it.\<close>

definition recorder :: "call transport" where
  "recorder = \<lparr>api_get = (\<lambda>r. (GET, r)), api_post = (\<lambda>r. (POST, r)),
                api_patch = (\<lambda>r. (PATCH, r))\<rparr>"

text \<open>A host for the examples. None of them reaches the host: its three functions
  are placeholders.\<close>

definition plain_host :: host where
  "plain_host = \<lparr>HostStringToNumber = (\<lambda>s. NaN), HostNumberToString = (\<lambda>q. []),
                  HostDateToString = (\<lambda>q. [])\<rparr>"

text \<open>A stand-in for \<^verbatim>\<open>normalizeDate\<close> in the examples: a number is taken as it is, and
  nothing else is given to it there.\<close>

definition seconds_only :: "jsval \<Rightarrow> jsval" where
  "seconds_only v = (case v of JNum n \<Rightarrow> JNum n | _ \<Rightarrow> JNum NaN)"

definition catalog_item :: jsval where
  "catalog_item = JObj [(''item_id'', JStr ''item_1'')]"

definition inline_item :: jsval where
  "inline_item = JObj [(''name'', JStr ''Book''), (''amount'', JNum (Fin 20000)),
                       (''currency'', JStr ''INR''), (''quantity'', JNum (Fin 1))]"

definition free_item :: jsobj where
  "free_item = [(''name'', JStr ''Sample''), (''amount'', JNum (Fin 0))]"

definition nameless_item :: jsval where
  "nameless_item = JObj [(''amount'', JNum (Fin 500))]"

definition simple_draft :: jsobj where
  "simple_draft = [(''customer_id'', JStr ''cust_1''), (''line_items'', JArr [catalog_item])]"

definition typed_draft :: jsobj where
  "typed_draft = [(''customer_id'', JStr ''cust_1''), (''line_items'', JArr [catalog_item]),
                  (''type'', JStr ''link'')]"

definition both_identities_draft :: jsobj where
  "both_identities_draft =
     [(''customer_id'', JStr ''cust_1''), (''customer'', JObj [(''name'', JStr ''Asha'')]),
      (''line_items'', JArr [catalog_item])]"

definition paid_query :: jsobj where
  "paid_query = [(''count'', JNum (Fin 25)), (''from'', JNum (Fin 1600000000)),
                 (''status'', JStr ''paid'')]"



text \<open>An object that cannot be converted to a primitive: its own \<^verbatim>\<open>toString\<close> is not
  callable.\<close>

definition unprintable :: jsval where
  "unprintable = JObj [(''toString'', JNum (Fin 0))]"


section \<open>Auxiliary facts\<close>

lemma either_msgs_distinct:
  "either_customer_msg \<noteq> either_name_msg"
  "either_customer_msg \<noteq> either_amount_msg"
  "either_name_msg \<noteq> either_amount_msg"
  by (simp_all add: either_customer_msg_def either_name_msg_def either_amount_msg_def)

lemma map_of_obj_set: "map_of (obj_set props k v) = (map_of props)(k \<mapsto> v)"
  by (simp add: obj_set_def update_conv')

lemma map_of_obj_spread: "map_of (obj_spread target source) = map_of target ++ map_of source"
  by (simp add: obj_spread_def merge_conv')


text \<open>The loop passes over items that satisfy both rules, and leaves only by a rejection
  or by throwing.\<close>

lemma loop_skips_ok_items:
  "list_all item_ok pre \<Longrightarrow> line_items_loop (pre @ rest) = line_items_loop rest"
  by (induction pre) (auto simp: item_ok_def split: option.splits)

lemma loop_all_ok: "list_all item_ok items \<Longrightarrow> line_items_loop items = None"
  using loop_skips_ok_items [of items "[]"] by simp

lemma loop_None_iff:
  "line_items_loop items = (None :: 'p outcome option) \<longleftrightarrow> list_all item_ok items"
  by (induction items) (auto simp: item_ok_def split: option.splits)

lemma loop_never_returns: "line_items_loop items \<noteq> Some (Returned p)"
  by (induction items) (auto split: option.splits)

lemma loop_on_string:
  "s \<noteq> [] \<Longrightarrow>
   line_items_loop (map (\<lambda>c. JStr [c]) s) = Some (Rejected (Message either_name_msg))"
  by (cases s) auto

lemma loop_at_offender:
  assumes "list_all item_ok pre"
    and "destructure_item bad = Some (item_id, name, amount)"
    and "\<not> truthy item_id"
    and "\<not> truthy name \<or> \<not> truthy amount"
  shows "line_items_loop (pre @ bad # post) =
           Some (Rejected (Message (if \<not> truthy name then either_name_msg
                                    else either_amount_msg)))"
  using assms by (auto simp: loop_skips_ok_items)

lemma create_on_array:
  assumes "has_customer_identity params"
    and "get_field params ''line_items'' = JArr items"
    and "items \<noteq> []"
  shows "create api resourceUrl params =
           (case line_items_loop items of
              Some out \<Rightarrow> (out, [])
            | None \<Rightarrow>
                (Returned (api_post api \<lparr>url = resourceUrl,
                    data = Some (JObj (obj_spread [(''type'', JStr ''invoice'')] params))\<rparr>),
                 [(POST, \<lparr>url = resourceUrl,
                    data = Some (JObj (obj_spread [(''type'', JStr ''invoice'')] params))\<rparr>)]))"
  using assms
  by (auto simp: create_def has_customer_identity_def is_zero_def Let_def split: option.splits)

text \<open>\<open>valid_draft\<close> is exactly the condition under which \<^verbatim>\<open>create\<close> reaches the
  transport.\<close>

lemma create_Returned_iff:
  "(\<exists>p. fst (create api resourceUrl params) = Returned p) \<longleftrightarrow> valid_draft params"
proof (cases "valid_draft params")
  case True
  then obtain items where "has_customer_identity params"
    "get_field params ''line_items'' = JArr items" "items \<noteq> []" "list_all item_ok items"
    by (auto simp: valid_draft_def split: jsval.splits)
  then show ?thesis
    using True create_on_array [of params items api resourceUrl] by (simp add: loop_all_ok)
next
  case False
  have "fst (create api resourceUrl params) \<noteq> Returned p" for p
  proof (cases "get_field params ''line_items''")
    case (JArr items)
    then show ?thesis
      using False loop_never_returns [of items p]
      by (auto simp: create_def valid_draft_def has_customer_identity_def is_zero_def Let_def
            loop_None_iff split: option.splits)
  next
    case (JStr s)
    then show ?thesis
      by (auto simp: create_def is_zero_def Let_def loop_on_string split: option.splits)
  qed (auto simp: create_def Let_def)
  then show ?thesis using False by simp
qed

lemma create_calls_at_most_once: "length (snd (create api resourceUrl params)) \<le> 1"
  by (auto simp: create_def Let_def split: option.splits)

lemma loop_exits:
  "line_items_loop items = Some out \<Longrightarrow>
     out = Thrown TypeError \<or> out = Rejected (Message either_name_msg)
       \<or> out = Rejected (Message either_amount_msg)"
  by (induction items) (auto split: option.splits if_splits)

lemma create_rejects_without_identity:
  "\<not> truthy (get_field params ''customer_id'') \<Longrightarrow> \<not> truthy (get_field params ''customer'') \<Longrightarrow>
   create api resourceUrl params = (Rejected (Message either_customer_msg), [])"
  by (simp add: create_def)

lemma create_with_identity_other_outcome:
  assumes "has_customer_identity params"
  shows "fst (create api resourceUrl params) \<noteq> Rejected (Message either_customer_msg)"
proof -
  have "out \<noteq> Rejected (Message either_customer_msg)"
    if "line_items_loop items = Some out" for items and out :: "'a outcome"
    using loop_exits [OF that] either_msgs_distinct by auto
  then show ?thesis
    using assms
    by (auto simp: create_def has_customer_identity_def Let_def split: option.splits)
qed

lemma create_valid:
  assumes "valid_draft params"
  shows "create api resourceUrl params =
           (Returned (api_post api \<lparr>url = resourceUrl,
               data = Some (JObj (obj_spread [(''type'', JStr ''invoice'')] params))\<rparr>),
            [(POST, \<lparr>url = resourceUrl,
               data = Some (JObj (obj_spread [(''type'', JStr ''invoice'')] params))\<rparr>)])"
proof -
  from assms obtain items where items: "has_customer_identity params"
    "get_field params ''line_items'' = JArr items" "items \<noteq> []" "list_all item_ok items"
    by (auto simp: valid_draft_def split: jsval.splits)
  show ?thesis
    using create_on_array [OF items(1-3), of api resourceUrl]
    by (simp add: loop_all_ok [OF items(4)])
qed

lemma item_ok_catalog_item: "item_ok catalog_item"
  by (simp add: item_ok_def catalog_item_def get_field_def)

lemma item_ok_inline_item: "item_ok inline_item"
  by (simp add: item_ok_def inline_item_def get_field_def)

lemma create_at_offender:
  assumes "has_customer_identity params"
    and "get_field params ''line_items'' = JArr (pre @ bad # post)"
    and "list_all item_ok pre"
    and "destructure_item bad = Some (item_id, name, amount)"
    and "\<not> truthy item_id"
    and "\<not> truthy name \<or> \<not> truthy amount"
  shows "create api resourceUrl params =
           (Rejected (Message (if \<not> truthy name then either_name_msg else either_amount_msg)), [])"
proof -
  have "pre @ bad # post \<noteq> []" by simp
  from create_on_array [OF assms(1,2) this, of api resourceUrl]
  show ?thesis
    by (simp only: loop_at_offender [OF assms(3-6)] option.case)
qed

lemma simple_draft_fields: "map_of simple_draft ''customer_id'' = Some (JStr ''cust_1'')"
    "map_of simple_draft ''line_items'' = Some (JArr [catalog_item])"
    "map_of simple_draft ''type'' = None"
    "dom (map_of simple_draft) = {''customer_id'', ''line_items''}"
    by (simp_all add: simple_draft_def insert_commute)

section \<open>create\<close>

text \<open>
  Claim C1, as amended. For every draft that passes the three validation checks,
  \<^verbatim>\<open>create\<close> makes exactly one transport call, a POST to the resource's base path, and
  returns the transport's own promise. The payload holds every field of the draft with
  its value, and no field besides those and \<^verbatim>\<open>type\<close>. The discriminator \<^verbatim>\<open>type\<close> is
  \<^verbatim>\<open>'invoice'\<close> when the draft has no field of that name: the draft is spread after the
  discriminator, so a \<^verbatim>\<open>type\<close> field of the draft takes its place.
\<close>

theorem create_posts_draft:
  assumes "valid_draft params"
  shows "\<exists>payload.
           create api resourceUrl params =
             (Returned (api_post api \<lparr>url = resourceUrl, data = Some (JObj payload)\<rparr>),
              [(POST, \<lparr>url = resourceUrl, data = Some (JObj payload)\<rparr>)])
         \<and> (\<forall>k v. map_of params k = Some v \<longrightarrow> map_of payload k = Some v)
         \<and> (map_of params ''type'' = None \<longrightarrow> map_of payload ''type'' = Some (JStr ''invoice''))
         \<and> dom (map_of payload) = insert ''type'' (dom (map_of params))"
proof -
  let ?payload = "obj_spread [(''type'', JStr ''invoice'')] params"
  have sent: "create api resourceUrl params =
      (Returned (api_post api \<lparr>url = resourceUrl, data = Some (JObj ?payload)\<rparr>),
       [(POST, \<lparr>url = resourceUrl, data = Some (JObj ?payload)\<rparr>)])"
    by (rule create_valid [OF assms])
  have keep: "\<forall>k v. map_of params k = Some v \<longrightarrow> map_of ?payload k = Some v"
    by (simp add: map_of_obj_spread map_add_Some_iff)
  have disc: "map_of params ''type'' = None \<longrightarrow> map_of ?payload ''type'' = Some (JStr ''invoice'')"
    by (simp add: map_of_obj_spread map_add_def)
  have keys: "dom (map_of ?payload) = insert ''type'' (dom (map_of params))"
    by (simp add: map_of_obj_spread Un_commute)
  show ?thesis
    by (rule exI [of _ ?payload]) (intro conjI sent keep disc keys)
qed

theorem create_posts_draft_witness:
  "valid_draft simple_draft \<and>
   (\<exists>payload.
      create recorder ''/invoices'' simple_draft =
        (Returned (POST, \<lparr>url = ''/invoices'', data = Some (JObj payload)\<rparr>),
         [(POST, \<lparr>url = ''/invoices'', data = Some (JObj payload)\<rparr>)])
    \<and> map_of payload ''customer_id'' = Some (JStr ''cust_1'')
    \<and> map_of payload ''line_items'' = Some (JArr [catalog_item])
    \<and> map_of payload ''type'' = Some (JStr ''invoice'')
    \<and> dom (map_of payload) = {''type'', ''customer_id'', ''line_items''})"
proof -
  have li: "get_field simple_draft ''line_items'' = JArr [catalog_item]"
    by (simp add: simple_draft_def get_field_def)
  have id: "has_customer_identity simple_draft"
    by (simp add: has_customer_identity_def simple_draft_def get_field_def)
  have v: "valid_draft simple_draft"
    by (simp add: valid_draft_def id li item_ok_catalog_item)
  from create_posts_draft [OF v, of recorder "''/invoices''"]
  obtain payload where p:
    "create recorder ''/invoices'' simple_draft =
        (Returned (api_post recorder \<lparr>url = ''/invoices'', data = Some (JObj payload)\<rparr>),
         [(POST, \<lparr>url = ''/invoices'', data = Some (JObj payload)\<rparr>)])"
    "\<forall>k v. map_of simple_draft k = Some v \<longrightarrow> map_of payload k = Some v"
    "map_of simple_draft ''type'' = None \<longrightarrow> map_of payload ''type'' = Some (JStr ''invoice'')"
    "dom (map_of payload) = insert ''type'' (dom (map_of simple_draft))"
    by (elim exE conjE)
  have sent: "create recorder ''/invoices'' simple_draft =
        (Returned (POST, \<lparr>url = ''/invoices'', data = Some (JObj payload)\<rparr>),
         [(POST, \<lparr>url = ''/invoices'', data = Some (JObj payload)\<rparr>)])"
    using p(1) by (simp add: recorder_def)
  have c: "map_of payload ''customer_id'' = Some (JStr ''cust_1'')"
    by (rule p(2) [rule_format, OF simple_draft_fields(1)])
  have l: "map_of payload ''line_items'' = Some (JArr [catalog_item])"
    by (rule p(2) [rule_format, OF simple_draft_fields(2)])
  have t: "map_of payload ''type'' = Some (JStr ''invoice'')"
    by (rule p(3) [rule_format, OF simple_draft_fields(3)])
  have d: "dom (map_of payload) = {''type'', ''customer_id'', ''line_items''}"
    using p(4) by (simp only: simple_draft_fields(4))
  show ?thesis
    by (rule conjI [OF v]) (rule exI [of _ payload], intro conjI sent c l t d)
qed

text \<open>
  Claim C1 as it is written fails on a valid draft that has a \<^verbatim>\<open>type\<close> field of its own:
  the payload carries the draft's value, not \<^verbatim>\<open>'invoice'\<close>.
\<close>

theorem create_type_override_counterexample:
  "valid_draft typed_draft \<and>
   snd (create recorder ''/invoices'' typed_draft) =
     [(POST, \<lparr>url = ''/invoices'',
              data = Some (JObj [(''type'', JStr ''link''),
                                 (''line_items'', JArr [JObj [(''item_id'', JStr ''item_1'')]]),
                                 (''customer_id'', JStr ''cust_1'')])\<rparr>)] \<and>
   get_field [(''type'', JStr ''link''),
              (''line_items'', JArr [JObj [(''item_id'', JStr ''item_1'')]]),
              (''customer_id'', JStr ''cust_1'')] ''type'' \<noteq> JStr ''invoice''"
proof -
  have li: "get_field typed_draft ''line_items'' = JArr [catalog_item]"
    by (simp add: typed_draft_def get_field_def)
  have id: "has_customer_identity typed_draft"
    by (simp add: has_customer_identity_def typed_draft_def get_field_def)
  have v: "valid_draft typed_draft"
    by (simp add: valid_draft_def id li item_ok_catalog_item)
  have payload: "obj_spread [(''type'', JStr ''invoice'')] typed_draft =
      [(''type'', JStr ''link''),
       (''line_items'', JArr [JObj [(''item_id'', JStr ''item_1'')]]),
       (''customer_id'', JStr ''cust_1'')]"
    by (simp add: obj_spread_def typed_draft_def catalog_item_def)
  have sent: "snd (create recorder ''/invoices'' typed_draft) =
     [(POST, \<lparr>url = ''/invoices'',
              data = Some (JObj [(''type'', JStr ''link''),
                                 (''line_items'', JArr [JObj [(''item_id'', JStr ''item_1'')]]),
                                 (''customer_id'', JStr ''cust_1'')])\<rparr>)]"
    by (simp only: create_valid [OF v] payload snd_conv)
  have differs: "get_field [(''type'', JStr ''link''),
              (''line_items'', JArr [JObj [(''item_id'', JStr ''item_1'')]]),
              (''customer_id'', JStr ''cust_1'')] ''type'' \<noteq> JStr ''invoice''"
    by (simp add: get_field_def)
  from v sent differs show ?thesis by (intro conjI)
qed

text \<open>
  Claim C2, as amended. \<^verbatim>\<open>create\<close> rejects with the customer-identity error if and only
  if neither \<^verbatim>\<open>customer_id\<close> nor \<^verbatim>\<open>customer\<close> is truthy, and then it makes no transport
  call. A draft in which both are truthy passes this check.
\<close>

theorem create_identity_rejection:
  "(fst (create api resourceUrl params) = Rejected (Message either_customer_msg)
      \<longleftrightarrow> \<not> truthy (get_field params ''customer_id'') \<and> \<not> truthy (get_field params ''customer''))
   \<and> (\<not> truthy (get_field params ''customer_id'') \<and> \<not> truthy (get_field params ''customer'')
        \<longrightarrow> snd (create api resourceUrl params) = [])"
proof (cases "has_customer_identity params")
  case True
  then show ?thesis
    using create_with_identity_other_outcome [OF True, of api resourceUrl]
    by (auto simp: has_customer_identity_def)
next
  case False
  then have "create api resourceUrl params = (Rejected (Message either_customer_msg), [])"
    by (simp add: create_rejects_without_identity has_customer_identity_def)
  with False show ?thesis by (simp add: has_customer_identity_def)
qed

theorem create_identity_rejection_witness:
  "\<not> truthy (get_field [(''order_id'', JStr ''order_1'')] ''customer_id'') \<and>
   \<not> truthy (get_field [(''order_id'', JStr ''order_1'')] ''customer'') \<and>
   create recorder ''/invoices'' [(''order_id'', JStr ''order_1'')] =
     (Rejected (Message either_customer_msg), [])"
proof -
  let ?d = "[(''order_id'', JStr ''order_1'')]"
  have a: "\<not> truthy (get_field ?d ''customer_id'')"
    and b: "\<not> truthy (get_field ?d ''customer'')"
    by (simp_all add: get_field_def)
  from create_identity_rejection [of recorder "''/invoices''" ?d] a b
  have "fst (create recorder ''/invoices'' ?d) = Rejected (Message either_customer_msg)"
    and "snd (create recorder ''/invoices'' ?d) = []"
    by blast+
  then have "create recorder ''/invoices'' ?d = (Rejected (Message either_customer_msg), [])"
    by (simp add: prod_eq_iff)
  with a b show ?thesis by (intro conjI)
qed

text \<open>
  Claim C2 as it is written asks for exactly one identity and has a draft with both
  rejected. A draft with both a truthy \<^verbatim>\<open>customer_id\<close> and a truthy \<^verbatim>\<open>customer\<close> is sent.
\<close>

theorem create_both_identities_counterexample:
  "\<not> exactly_one_identity both_identities_draft \<and>
   fst (create recorder ''/invoices'' both_identities_draft) \<noteq> Rejected (Message either_customer_msg) \<and>
   snd (create recorder ''/invoices'' both_identities_draft) =
     [(POST, \<lparr>url = ''/invoices'',
              data = Some (JObj (obj_spread [(''type'', JStr ''invoice'')] both_identities_draft))\<rparr>)]"
proof -
  have cid: "truthy (get_field both_identities_draft ''customer_id'')"
    and cust: "truthy (get_field both_identities_draft ''customer'')"
    by (simp_all add: both_identities_draft_def get_field_def)
  have li: "get_field both_identities_draft ''line_items'' = JArr [catalog_item]"
    by (simp add: both_identities_draft_def get_field_def)
  have v: "valid_draft both_identities_draft"
    by (simp add: valid_draft_def has_customer_identity_def cid li item_ok_catalog_item)
  have both: "\<not> exactly_one_identity both_identities_draft"
    by (simp add: exactly_one_identity_def cid cust)
  have out: "fst (create recorder ''/invoices'' both_identities_draft)
               \<noteq> Rejected (Message either_customer_msg)"
    by (simp only: create_valid [OF v] fst_conv) simp
  have sent: "snd (create recorder ''/invoices'' both_identities_draft) =
     [(POST, \<lparr>url = ''/invoices'',
              data = Some (JObj (obj_spread [(''type'', JStr ''invoice'')] both_identities_draft))\<rparr>)]"
    by (simp only: create_valid [OF v] snd_conv)
  from both out sent show ?thesis by (intro conjI)
qed

text \<open>
  Claim C3. In a draft that passes the customer-identity and \<^verbatim>\<open>line_items\<close> checks, let
  \<open>bad\<close> be the first line item that violates a rule: every item of \<open>pre\<close> before it
  satisfies both rules. Then \<^verbatim>\<open>create\<close> rejects with the error of the first rule that
  \<open>bad\<close> violates, the (\<^verbatim>\<open>item_id\<close> or \<^verbatim>\<open>name\<close>) rule before the (\<^verbatim>\<open>item_id\<close> or
  \<^verbatim>\<open>amount\<close>) rule, with that one error and no transport call. The items \<open>post\<close> after
  \<open>bad\<close> are arbitrary and have no part in the result: they are not examined, even
  where examining one would throw or give another error.
\<close>

theorem create_stops_at_first_offender:
  assumes "has_customer_identity params"
    and "get_field params ''line_items'' = JArr (pre @ bad # post)"
    and "list_all item_ok pre"
    and "destructure_item bad = Some (item_id, name, amount)"
    and "\<not> truthy item_id"
    and "\<not> truthy name \<or> \<not> truthy amount"
  shows "create api resourceUrl params =
           (Rejected (Message (if \<not> truthy name then either_name_msg else either_amount_msg)), [])
         \<and> line_items_loop (pre @ bad # post) = (line_items_loop (pre @ [bad]) :: 'p outcome option)"
proof -
  have "line_items_loop (pre @ bad # post) = (line_items_loop (pre @ [bad]) :: 'p outcome option)"
    by (simp only: loop_at_offender [OF assms(3-6)])
  with create_at_offender [OF assms, of api resourceUrl] show ?thesis by (intro conjI)
qed

theorem create_stops_at_first_offender_witness:
  "has_customer_identity
     [(''customer_id'', JStr ''cust_1''),
      (''line_items'', JArr ([catalog_item, inline_item] @ nameless_item # [JNull, JObj free_item]))] \<and>
   list_all item_ok [catalog_item, inline_item] \<and>
   destructure_item nameless_item = Some (JUndefined, JUndefined, JNum (Fin 500)) \<and>
   create recorder ''/invoices''
     [(''customer_id'', JStr ''cust_1''),
      (''line_items'', JArr ([catalog_item, inline_item] @ nameless_item # [JNull, JObj free_item]))]
     = (Rejected (Message either_name_msg), [])"
proof -
  let ?d = "[(''customer_id'', JStr ''cust_1''),
      (''line_items'', JArr ([catalog_item, inline_item] @ nameless_item # [JNull, JObj free_item]))]"
  have id: "has_customer_identity ?d"
    by (simp add: has_customer_identity_def get_field_def)
  have li: "get_field ?d ''line_items'' =
              JArr ([catalog_item, inline_item] @ nameless_item # [JNull, JObj free_item])"
    by (simp add: get_field_def)
  have pre: "list_all item_ok [catalog_item, inline_item]"
    by (simp add: item_ok_catalog_item item_ok_inline_item)
  have bad: "destructure_item nameless_item = Some (JUndefined, JUndefined, JNum (Fin 500))"
    by (simp add: nameless_item_def get_field_def)
  have a: "\<not> truthy JUndefined" by simp
  have b: "\<not> truthy JUndefined \<or> \<not> truthy (JNum (Fin 500))" by simp
  have first_rule: "(if \<not> truthy JUndefined then either_name_msg else either_amount_msg)
                      = either_name_msg"
    by simp
  have "create recorder ''/invoices'' ?d = (Rejected (Message either_name_msg), [])"
    using conjunct1 [OF create_stops_at_first_offender [OF id li pre bad a b, of recorder "''/invoices''"]]
    by (simp only: first_rule)
  with id pre bad show ?thesis by (intro conjI)
qed

text \<open>
  Claim C4. For every draft with a truthy customer identity whose \<^verbatim>\<open>line_items\<close> field is
  absent or is the empty array, \<^verbatim>\<open>create\<close> rejects with the mandatory-field error for
  \<^verbatim>\<open>line_items\<close> and makes no transport call.
\<close>

theorem create_requires_line_items:
  assumes "has_customer_identity params"
    and "map_of params ''line_items'' = None \<or> get_field params ''line_items'' = JArr []"
  shows "create api resourceUrl params = (Rejected (FIELD_MANDATORY_ERROR ''line_items''), [])"
  using assms
  by (auto simp: create_def has_customer_identity_def get_field_def is_zero_def)

theorem create_requires_line_items_witness:
  "has_customer_identity [(''customer_id'', JStr ''cust_1''), (''line_items'', JArr [])] \<and>
   get_field [(''customer_id'', JStr ''cust_1''), (''line_items'', JArr [])] ''line_items'' = JArr [] \<and>
   create recorder ''/invoices'' [(''customer_id'', JStr ''cust_1''), (''line_items'', JArr [])]
     = (Rejected (FIELD_MANDATORY_ERROR ''line_items''), [])"
proof -
  let ?d = "[(''customer_id'', JStr ''cust_1''), (''line_items'', JArr [])]"
  have id: "has_customer_identity ?d"
    by (simp add: has_customer_identity_def get_field_def)
  have li: "get_field ?d ''line_items'' = JArr []"
    by (simp add: get_field_def)
  from id li create_requires_line_items [OF id disjI2 [OF li], of recorder "''/invoices''"]
  show ?thesis by (intro conjI)
qed

text \<open>
  Claim C10. The presence checks of \<^verbatim>\<open>create\<close> are truthiness checks. A draft whose
  \<^verbatim>\<open>customer_id\<close> is the empty string and whose \<^verbatim>\<open>customer\<close> is absent is rejected with
  the customer-identity error. A line item without \<^verbatim>\<open>item_id\<close>, with a \<^verbatim>\<open>name\<close>, and
  with \<^verbatim>\<open>amount\<close> equal to the number \<^verbatim>\<open>0\<close> is rejected with the (\<^verbatim>\<open>item_id\<close> or
  \<^verbatim>\<open>amount\<close>) error, although it has an \<^verbatim>\<open>amount\<close> field (the item being the first
  offender of a draft that passed the earlier checks).
\<close>

theorem create_presence_is_truthiness:
  "(map_of params ''customer_id'' = Some (JStr []) \<and> map_of params ''customer'' = None
      \<longrightarrow> create api resourceUrl params = (Rejected (Message either_customer_msg), []))
   \<and> (has_customer_identity draft
        \<and> get_field draft ''line_items'' = JArr (pre @ JObj item # post)
        \<and> list_all item_ok pre
        \<and> map_of item ''item_id'' = None
        \<and> truthy (get_field item ''name'')
        \<and> map_of item ''amount'' = Some (JNum (Fin 0))
      \<longrightarrow> create api resourceUrl draft = (Rejected (Message either_amount_msg), []))"
proof (intro conjI impI)
  assume "map_of params ''customer_id'' = Some (JStr []) \<and> map_of params ''customer'' = None"
  then have "\<not> truthy (get_field params ''customer_id'')"
    and "\<not> truthy (get_field params ''customer'')"
    by (simp_all add: get_field_def)
  then show "create api resourceUrl params = (Rejected (Message either_customer_msg), [])"
    by (rule create_rejects_without_identity)
next
  assume h: "has_customer_identity draft
        \<and> get_field draft ''line_items'' = JArr (pre @ JObj item # post)
        \<and> list_all item_ok pre
        \<and> map_of item ''item_id'' = None
        \<and> truthy (get_field item ''name'')
        \<and> map_of item ''amount'' = Some (JNum (Fin 0))"
  then have fields: "destructure_item (JObj item) =
      Some (JUndefined, get_field item ''name'', JNum (Fin 0))"
    by (simp add: get_field_def)
  have "create api resourceUrl draft =
      (Rejected (Message (if \<not> truthy (get_field item ''name'') then either_name_msg
                          else either_amount_msg)), [])"
  proof (rule create_at_offender [OF _ _ _ fields])
    show "has_customer_identity draft" using h by (rule conjunct1)
    show "get_field draft ''line_items'' = JArr (pre @ JObj item # post)" using h by blast
    show "list_all item_ok pre" using h by blast
    show "\<not> truthy JUndefined" by simp
    show "\<not> truthy (get_field item ''name'') \<or> \<not> truthy (JNum (Fin 0))" by simp
  qed
  with h show "create api resourceUrl draft = (Rejected (Message either_amount_msg), [])"
    by simp
qed

theorem create_presence_is_truthiness_witness:
  "map_of [(''customer_id'', JStr [])] ''customer_id'' = Some (JStr []) \<and>
   map_of [(''customer_id'', JStr [])] ''customer'' = None \<and>
   create recorder ''/invoices'' [(''customer_id'', JStr [])]
     = (Rejected (Message either_customer_msg), []) \<and>
   has_customer_identity
     [(''customer_id'', JStr ''cust_1''),
      (''line_items'', JArr ([catalog_item] @ JObj free_item # [JNull]))] \<and>
   list_all item_ok [catalog_item] \<and>
   map_of free_item ''item_id'' = None \<and>
   truthy (get_field free_item ''name'') \<and>
   map_of free_item ''amount'' = Some (JNum (Fin 0)) \<and>
   create recorder ''/invoices''
     [(''customer_id'', JStr ''cust_1''),
      (''line_items'', JArr ([catalog_item] @ JObj free_item # [JNull]))]
     = (Rejected (Message either_amount_msg), [])"
proof -
  let ?e = "[(''customer_id'', JStr [])]"
  let ?d = "[(''customer_id'', JStr ''cust_1''),
      (''line_items'', JArr ([catalog_item] @ JObj free_item # [JNull]))]"
  have e1: "map_of ?e ''customer_id'' = Some (JStr [])"
    and e2: "map_of ?e ''customer'' = None"
    by simp_all
  have id: "has_customer_identity ?d"
    by (simp add: has_customer_identity_def get_field_def)
  have li: "get_field ?d ''line_items'' = JArr ([catalog_item] @ JObj free_item # [JNull])"
    by (simp add: get_field_def)
  have pre: "list_all item_ok [catalog_item]"
    by (simp add: item_ok_catalog_item)
  have f1: "map_of free_item ''item_id'' = None"
    and f2: "truthy (get_field free_item ''name'')"
    and f3: "map_of free_item ''amount'' = Some (JNum (Fin 0))"
    by (simp_all add: free_item_def get_field_def)
  note both_parts = create_presence_is_truthiness
    [of ?e recorder "''/invoices''" ?d "[catalog_item]" free_item "[JNull]"]
  have r1: "create recorder ''/invoices'' ?e = (Rejected (Message either_customer_msg), [])"
    using both_parts e1 e2 by blast
  have r2: "create recorder ''/invoices'' ?d = (Rejected (Message either_amount_msg), [])"
    using both_parts id li pre f1 f2 f3 by blast
  from e1 e2 r1 id pre f1 f2 f3 r2 show ?thesis by (intro conjI)
qed

section \<open>fetchAll\<close>


lemma ToString_of_primitive: "is_primitive v \<Longrightarrow> \<exists>s. ToString h v = Inr s"
  by (cases v) simp_all


lemma fetchAll_sends:
  assumes "Number h (get_field (query_or_default arg) ''count'') = Inr c"
    and "Number h (get_field (query_or_default arg) ''skip'') = Inr s"
  shows "fetchAll h normalizeDate api resourceUrl arg =
     (let query = query_or_default arg;
          from0 = get_field query ''from'';
          to0 = get_field query ''to'';
          payload = obj_set (obj_set (obj_set (obj_set (obj_spread [] query)
                      ''from'' (if truthy from0 then normalizeDate from0 else from0))
                      ''to'' (if truthy to0 then normalizeDate to0 else to0))
                      ''count'' (js_or (JNum c) (JNum (Fin 10))))
                      ''skip'' (js_or (JNum s) (JNum (Fin 0)))
      in (Returned (api_get api \<lparr>url = resourceUrl, data = Some (JObj payload)\<rparr>),
          [(GET, \<lparr>url = resourceUrl, data = Some (JObj payload)\<rparr>)]))"
  by (simp add: fetchAll_def Let_def assms)


lemma fetchAll_calls:
  "snd (fetchAll h normalizeDate api resourceUrl arg) = [] \<or>
   (\<exists>c s. Number h (get_field (query_or_default arg) ''count'') = Inr c
        \<and> Number h (get_field (query_or_default arg) ''skip'') = Inr s)"
  by (auto simp: fetchAll_def Let_def split: sum.splits)




lemma paid_query_fields:
  "get_field (query_or_default (Some paid_query)) ''count'' = JNum (Fin 25)"
  "get_field (query_or_default (Some paid_query)) ''skip'' = JUndefined"
  "get_field (query_or_default (Some paid_query)) ''from'' = JNum (Fin 1600000000)"
  "get_field (query_or_default (Some paid_query)) ''to'' = JUndefined"
  "map_of (query_or_default (Some paid_query)) ''status'' = Some (JStr ''paid'')"
  by (simp_all add: query_or_default_def paid_query_def get_field_def)




text \<open>
  Claim C6. Every field of the query other than \<^verbatim>\<open>from\<close>, \<^verbatim>\<open>to\<close>, \<^verbatim>\<open>count\<close> and
  \<^verbatim>\<open>skip\<close> is in the data of the outgoing GET under the same key with the same value,
  and a key that the query does not have, other than those four, is not in the data
  either. This holds of every transport call that \<^verbatim>\<open>fetchAll\<close> makes; and it makes one,
  with such data, whenever \<^verbatim>\<open>count\<close> and \<^verbatim>\<open>skip\<close> are coerced to numbers.
\<close>

theorem fetchAll_keeps_other_fields:
  assumes "k \<notin> {''from'', ''to'', ''count'', ''skip''}"
  shows "(\<forall>sent \<in> set (snd (fetchAll h normalizeDate api resourceUrl arg)).
            \<exists>payload. sent = (GET, \<lparr>url = resourceUrl, data = Some (JObj payload)\<rparr>)
                     \<and> map_of payload k = map_of (query_or_default arg) k)
       \<and> (Number h (get_field (query_or_default arg) ''count'') = Inr c \<and>
          Number h (get_field (query_or_default arg) ''skip'') = Inr s \<longrightarrow>
            (\<exists>payload.
               fetchAll h normalizeDate api resourceUrl arg =
                 (Returned (api_get api \<lparr>url = resourceUrl, data = Some (JObj payload)\<rparr>),
                  [(GET, \<lparr>url = resourceUrl, data = Some (JObj payload)\<rparr>)])
             \<and> map_of payload k = map_of (query_or_default arg) k))"
proof -
  let ?q = "query_or_default arg"
  let ?from = "if truthy (get_field ?q ''from'') then normalizeDate (get_field ?q ''from'')
               else get_field ?q ''from''"
  let ?to = "if truthy (get_field ?q ''to'') then normalizeDate (get_field ?q ''to'')
             else get_field ?q ''to''"
  let ?payload = "\<lambda>c s. obj_set (obj_set (obj_set (obj_set (obj_spread [] ?q)
                    ''from'' ?from) ''to'' ?to)
                    ''count'' (js_or (JNum c) (JNum (Fin 10))))
                    ''skip'' (js_or (JNum s) (JNum (Fin 0)))"
  from assms have "k \<noteq> ''from''" "k \<noteq> ''to''" "k \<noteq> ''count''" "k \<noteq> ''skip''"
    by simp_all
  then have same: "map_of (?payload c s) k = map_of ?q k" for c s
    by (simp add: map_of_obj_set map_of_obj_spread)
  have sent: "fetchAll h normalizeDate api resourceUrl arg =
       (Returned (api_get api \<lparr>url = resourceUrl, data = Some (JObj (?payload c s))\<rparr>),
        [(GET, \<lparr>url = resourceUrl, data = Some (JObj (?payload c s))\<rparr>)])"
    if "Number h (get_field ?q ''count'') = Inr c" "Number h (get_field ?q ''skip'') = Inr s"
    for c s
    using fetchAll_sends [OF that, of normalizeDate api resourceUrl] by (simp only: Let_def)
  have every: "\<forall>sent \<in> set (snd (fetchAll h normalizeDate api resourceUrl arg)).
            \<exists>payload. sent = (GET, \<lparr>url = resourceUrl, data = Some (JObj payload)\<rparr>)
                     \<and> map_of payload k = map_of ?q k"
  proof (cases "snd (fetchAll h normalizeDate api resourceUrl arg) = []")
    case True
    then show ?thesis by simp
  next
    case False
    with fetchAll_calls [of h normalizeDate api resourceUrl arg]
    obtain c s where "Number h (get_field ?q ''count'') = Inr c"
      "Number h (get_field ?q ''skip'') = Inr s"
      by (elim disjE exE conjE) simp_all
    from sent [OF this] same [of c s] show ?thesis by simp
  qed
  have one: "Number h (get_field ?q ''count'') = Inr c \<and> Number h (get_field ?q ''skip'') = Inr s
        \<longrightarrow> (\<exists>payload.
               fetchAll h normalizeDate api resourceUrl arg =
                 (Returned (api_get api \<lparr>url = resourceUrl, data = Some (JObj payload)\<rparr>),
                  [(GET, \<lparr>url = resourceUrl, data = Some (JObj payload)\<rparr>)])
             \<and> map_of payload k = map_of ?q k)"
  proof
    assume ok: "Number h (get_field ?q ''count'') = Inr c \<and> Number h (get_field ?q ''skip'') = Inr s"
    show "\<exists>payload.
               fetchAll h normalizeDate api resourceUrl arg =
                 (Returned (api_get api \<lparr>url = resourceUrl, data = Some (JObj payload)\<rparr>),
                  [(GET, \<lparr>url = resourceUrl, data = Some (JObj payload)\<rparr>)])
             \<and> map_of payload k = map_of ?q k"
      by (rule exI [of _ "?payload c s"])
         (intro conjI sent [OF conjunct1 [OF ok] conjunct2 [OF ok]] same)
  qed
  from every one show ?thesis by (rule conjI)
qed

theorem fetchAll_keeps_other_fields_witness:
  "''status'' \<notin> {''from'', ''to'', ''count'', ''skip''} \<and>
   Number plain_host (get_field (query_or_default (Some paid_query)) ''count'') = Inr (Fin 25) \<and>
   Number plain_host (get_field (query_or_default (Some paid_query)) ''skip'') = Inr NaN \<and>
   (\<exists>payload.
     fetchAll plain_host seconds_only recorder ''/invoices'' (Some paid_query) =
       (Returned (GET, \<lparr>url = ''/invoices'', data = Some (JObj payload)\<rparr>),
        [(GET, \<lparr>url = ''/invoices'', data = Some (JObj payload)\<rparr>)])
   \<and> map_of payload ''status'' = Some (JStr ''paid''))"
proof -
  have k: "''status'' \<notin> {''from'', ''to'', ''count'', ''skip''}" by simp
  have c: "Number plain_host (get_field (query_or_default (Some paid_query)) ''count'')
             = Inr (Fin 25)"
    and s: "Number plain_host (get_field (query_or_default (Some paid_query)) ''skip'') = Inr NaN"
    by (simp_all only: paid_query_fields Number.simps)
  have "\<exists>payload.
     fetchAll plain_host seconds_only recorder ''/invoices'' (Some paid_query) =
       (Returned (GET, \<lparr>url = ''/invoices'', data = Some (JObj payload)\<rparr>),
        [(GET, \<lparr>url = ''/invoices'', data = Some (JObj payload)\<rparr>)])
   \<and> map_of payload ''status'' = Some (JStr ''paid'')"
    using fetchAll_keeps_other_fields [OF k, where h = plain_host and arg = "Some paid_query"
        and c = "Fin 25" and s = NaN and normalizeDate = seconds_only and api = recorder
        and resourceUrl = "''/invoices''", THEN conjunct2, rule_format, OF conjI [OF c s]]
    by (simp add: paid_query_fields recorder_def)
  with k c s show ?thesis by (intro conjI)
qed

section \<open>fetch, cancel, edit, notify\<close>

lemma only_TypeError: "e = TypeError"
  by (cases e) simp

lemma ToString_examples:
  "ToString h unprintable = Inl TypeError"
  "ToString h (JObj []) = Inr ''[object Object]''"
  "ToString h (JNum (Fin 5)) = Inr ''5''"
  "ToString h (JArr [JStr ''a'', JNull, JNum (Fin 12)]) = Inr ''a,,12''"
  "ToString h (JArr [JStr ''a'', unprintable]) = Inl TypeError"
  by (simp_all add: unprintable_def NumberToString_def digits.simps)

text \<open>
  Claim C7. Each of \<^verbatim>\<open>fetch\<close>, \<^verbatim>\<open>cancel\<close>, \<^verbatim>\<open>edit\<close> and \<^verbatim>\<open>notify\<close>, given a falsy
  invoice identifier (such as the empty string or \<^verbatim>\<open>undefined\<close>), rejects with the
  missing-identifier error and makes no transport call, whatever its other arguments
  are; given a truthy identifier, none of them rejects with that error.
\<close>

theorem missing_identifier_gate:
  "(\<not> truthy invoiceId \<longrightarrow>
      fetch h api resourceUrl invoiceId = (Rejected MISSING_ID_ERROR, [])
    \<and> cancel h api resourceUrl invoiceId = (Rejected MISSING_ID_ERROR, [])
    \<and> edit h api resourceUrl invoiceId params = (Rejected MISSING_ID_ERROR, [])
    \<and> notify h api resourceUrl invoiceId medium = (Rejected MISSING_ID_ERROR, []))
   \<and> (truthy invoiceId \<longrightarrow>
      fst (fetch h api resourceUrl invoiceId) \<noteq> Rejected MISSING_ID_ERROR
    \<and> fst (cancel h api resourceUrl invoiceId) \<noteq> Rejected MISSING_ID_ERROR
    \<and> fst (edit h api resourceUrl invoiceId params) \<noteq> Rejected MISSING_ID_ERROR
    \<and> fst (notify h api resourceUrl invoiceId medium) \<noteq> Rejected MISSING_ID_ERROR)"
  by (simp add: fetch_def cancel_def edit_def notify_def Let_def split: sum.splits)

theorem missing_identifier_gate_witness:
  "\<not> truthy (JStr []) \<and>
   fetch plain_host recorder ''/invoices'' (JStr []) = (Rejected MISSING_ID_ERROR, []) \<and>
   cancel plain_host recorder ''/invoices'' (JStr []) = (Rejected MISSING_ID_ERROR, []) \<and>
   edit plain_host recorder ''/invoices'' (JStr []) (JObj []) = (Rejected MISSING_ID_ERROR, []) \<and>
   notify plain_host recorder ''/invoices'' (JStr []) (JStr ''sms'') = (Rejected MISSING_ID_ERROR, []) \<and>
   \<not> truthy JUndefined \<and>
   fetch plain_host recorder ''/invoices'' JUndefined = (Rejected MISSING_ID_ERROR, []) \<and>
   truthy (JStr ''inv_1'') \<and>
   fst (fetch plain_host recorder ''/invoices'' (JStr ''inv_1'')) \<noteq> Rejected MISSING_ID_ERROR \<and>
   fst (cancel plain_host recorder ''/invoices'' (JStr ''inv_1'')) \<noteq> Rejected MISSING_ID_ERROR \<and>
   fst (edit plain_host recorder ''/invoices'' (JStr ''inv_1'') JNull) \<noteq> Rejected MISSING_ID_ERROR \<and>
   fst (notify plain_host recorder ''/invoices'' (JStr ''inv_1'') (JStr ''sms''))
     \<noteq> Rejected MISSING_ID_ERROR"
proof -
  have e: "\<not> truthy (JStr [])" and u: "\<not> truthy JUndefined" and t: "truthy (JStr ''inv_1'')"
    by simp_all
  note empty_id = missing_identifier_gate
    [of "JStr []" plain_host recorder "''/invoices''" "JObj []" "JStr ''sms''"]
  note undefined_id = missing_identifier_gate
    [of JUndefined plain_host recorder "''/invoices''" "JObj []" "JStr ''sms''"]
  note given_id = missing_identifier_gate
    [of "JStr ''inv_1''" plain_host recorder "''/invoices''" JNull "JStr ''sms''"]
  from e empty_id have 1:
    "fetch plain_host recorder ''/invoices'' (JStr []) = (Rejected MISSING_ID_ERROR, [])"
    "cancel plain_host recorder ''/invoices'' (JStr []) = (Rejected MISSING_ID_ERROR, [])"
    "edit plain_host recorder ''/invoices'' (JStr []) (JObj []) = (Rejected MISSING_ID_ERROR, [])"
    "notify plain_host recorder ''/invoices'' (JStr []) (JStr ''sms'') = (Rejected MISSING_ID_ERROR, [])"
    by blast+
  from u undefined_id have 2:
    "fetch plain_host recorder ''/invoices'' JUndefined = (Rejected MISSING_ID_ERROR, [])"
    by blast
  from t given_id have 3:
    "fst (fetch plain_host recorder ''/invoices'' (JStr ''inv_1'')) \<noteq> Rejected MISSING_ID_ERROR"
    "fst (cancel plain_host recorder ''/invoices'' (JStr ''inv_1'')) \<noteq> Rejected MISSING_ID_ERROR"
    "fst (edit plain_host recorder ''/invoices'' (JStr ''inv_1'') JNull) \<noteq> Rejected MISSING_ID_ERROR"
    "fst (notify plain_host recorder ''/invoices'' (JStr ''inv_1'') (JStr ''sms''))
       \<noteq> Rejected MISSING_ID_ERROR"
    by blast+
  from e 1 u 2 t 3 show ?thesis by (intro conjI)
qed

text \<open>
  Claim C8, as amended. With a truthy invoice identifier, \<^verbatim>\<open>edit\<close> rejects every falsy
  params payload, \<^verbatim>\<open>null\<close> and \<^verbatim>\<open>undefined\<close> and likewise \<^verbatim>\<open>0\<close>, \<^verbatim>\<open>NaN\<close>, \<^verbatim>\<open>false\<close> and the
  empty string, with the mandatory-field error for \<^verbatim>\<open>Params\<close>, and makes no transport
  call. With a truthy params, which every object is, and an identifier that converts
  to the string \<open>i\<close>, as a string identifier does to itself, it makes exactly one
  transport call, a PATCH to the base path followed by \<^verbatim>\<open>/\<close> and \<open>i\<close> with params as the
  body, and returns the transport's promise. With a truthy params and an identifier
  whose conversion to a string throws, it throws that error and makes no transport
  call.
\<close>

theorem edit_requires_params:
  assumes "truthy invoiceId"
  shows "edit h api resourceUrl invoiceId JNull = (Rejected (FIELD_MANDATORY_ERROR ''Params''), [])
       \<and> edit h api resourceUrl invoiceId JUndefined
            = (Rejected (FIELD_MANDATORY_ERROR ''Params''), [])
       \<and> (\<not> truthy params \<longrightarrow>
            edit h api resourceUrl invoiceId params
              = (Rejected (FIELD_MANDATORY_ERROR ''Params''), []))
       \<and> (truthy params \<and> ToString h invoiceId = Inr i \<longrightarrow>
            edit h api resourceUrl invoiceId params =
              (Returned (api_patch api \<lparr>url = resourceUrl @ ''/'' @ i, data = Some params\<rparr>),
               [(PATCH, \<lparr>url = resourceUrl @ ''/'' @ i, data = Some params\<rparr>)]))
       \<and> (invoiceId = JStr i \<longrightarrow>
            edit h api resourceUrl invoiceId (JObj props) =
              (Returned (api_patch api \<lparr>url = resourceUrl @ ''/'' @ i, data = Some (JObj props)\<rparr>),
               [(PATCH, \<lparr>url = resourceUrl @ ''/'' @ i, data = Some (JObj props)\<rparr>)]))
       \<and> (truthy params \<and> ToString h invoiceId = Inl e \<longrightarrow>
            edit h api resourceUrl invoiceId params = (Thrown e, []))"
  using assms by (auto simp: edit_def Let_def)

theorem edit_requires_params_witness:
  "truthy (JStr ''inv_1'') \<and>
   edit plain_host recorder ''/invoices'' (JStr ''inv_1'') JNull
     = (Rejected (FIELD_MANDATORY_ERROR ''Params''), []) \<and>
   edit plain_host recorder ''/invoices'' (JStr ''inv_1'') JUndefined
     = (Rejected (FIELD_MANDATORY_ERROR ''Params''), []) \<and>
   edit plain_host recorder ''/invoices'' (JStr ''inv_1'') (JStr [])
     = (Rejected (FIELD_MANDATORY_ERROR ''Params''), []) \<and>
   edit plain_host recorder ''/invoices'' (JStr ''inv_1'') (JObj [(''description'', JStr ''May'')]) =
     (Returned (PATCH, \<lparr>url = ''/invoices/inv_1'',
                          data = Some (JObj [(''description'', JStr ''May'')])\<rparr>),
      [(PATCH, \<lparr>url = ''/invoices/inv_1'',
                data = Some (JObj [(''description'', JStr ''May'')])\<rparr>)]) \<and>
   truthy (JNum (Fin 12)) \<and>
   edit plain_host recorder ''/invoices'' (JNum (Fin 12)) (JObj []) =
     (Returned (PATCH, \<lparr>url = ''/invoices/12'', data = Some (JObj [])\<rparr>),
      [(PATCH, \<lparr>url = ''/invoices/12'', data = Some (JObj [])\<rparr>)])"
proof -
  have t: "truthy (JStr ''inv_1'')" and n: "truthy (JNum (Fin 12))" by simp_all
  have p: "ToString plain_host (JNum (Fin 12)) = Inr ''12''"
    by (simp add: NumberToString_def digits.simps)
  from edit_requires_params [OF t, of plain_host recorder "''/invoices''" "JStr []" "''inv_1''"
         "[(''description'', JStr ''May'')]"]
       edit_requires_params [OF n, of plain_host recorder "''/invoices''" "JObj []" "''12''"]
       t n p
  show ?thesis by (simp add: recorder_def)
qed

text \<open>
  Claim C8 as it is written has every non-null params sent by a PATCH. The guard is a
  truthiness test: with the identifier \<^verbatim>\<open>'inv_1'\<close> the params \<^verbatim>\<open>0\<close>, which is neither
  \<^verbatim>\<open>null\<close> nor \<^verbatim>\<open>undefined\<close>, is rejected and no request is made. The claim also has a
  PATCH for every truthy identifier: an identifier that cannot be converted to a
  string makes the call throw.
\<close>

theorem edit_falsy_params_counterexample:
  "truthy (JStr ''inv_1'') \<and> JNum (Fin 0) \<noteq> JNull \<and> JNum (Fin 0) \<noteq> JUndefined \<and>
   edit plain_host recorder ''/invoices'' (JStr ''inv_1'') (JNum (Fin 0))
     = (Rejected (FIELD_MANDATORY_ERROR ''Params''), []) \<and>
   truthy unprintable \<and>
   edit plain_host recorder ''/invoices'' unprintable (JObj []) = (Thrown TypeError, [])"
  by (simp add: edit_def unprintable_def)

text \<open>
  Claim C9, as amended. \<^verbatim>\<open>notify\<close> does not validate the medium. With a truthy invoice
  identifier that converts to the string \<open>i\<close> and any medium that converts to the
  string \<open>m\<close>, it makes exactly one transport call, a POST without a body to the base
  path followed by \<^verbatim>\<open>/\<close>, \<open>i\<close>, \<^verbatim>\<open>/notify_by/\<close> and \<open>m\<close>, and returns the transport's
  promise. A string converts to itself and \<^verbatim>\<open>undefined\<close> to the text \<^verbatim>\<open>undefined\<close>, and
  every primitive medium has a conversion. When the conversion of the identifier or of
  the medium throws, \<^verbatim>\<open>notify\<close> throws the \<^verbatim>\<open>TypeError\<close> and makes no transport call.
\<close>

theorem notify_interpolates_medium:
  assumes "truthy invoiceId"
  shows "(ToString h invoiceId = Inr i \<and> ToString h medium = Inr m \<longrightarrow>
            notify h api resourceUrl invoiceId medium =
              (Returned (api_post api
                 \<lparr>url = resourceUrl @ ''/'' @ i @ ''/notify_by/'' @ m, data = None\<rparr>),
               [(POST, \<lparr>url = resourceUrl @ ''/'' @ i @ ''/notify_by/'' @ m, data = None\<rparr>)]))
       \<and> (invoiceId = JStr i \<and> medium = JStr m \<longrightarrow>
            notify h api resourceUrl invoiceId medium =
              (Returned (api_post api
                 \<lparr>url = resourceUrl @ ''/'' @ i @ ''/notify_by/'' @ m, data = None\<rparr>),
               [(POST, \<lparr>url = resourceUrl @ ''/'' @ i @ ''/notify_by/'' @ m, data = None\<rparr>)]))
       \<and> (invoiceId = JStr i \<and> medium = JUndefined \<longrightarrow>
            notify h api resourceUrl invoiceId medium =
              (Returned (api_post api
                 \<lparr>url = resourceUrl @ ''/'' @ i @ ''/notify_by/undefined'', data = None\<rparr>),
               [(POST, \<lparr>url = resourceUrl @ ''/'' @ i @ ''/notify_by/undefined'', data = None\<rparr>)]))
       \<and> (is_primitive medium \<longrightarrow> (\<exists>m'. ToString h medium = Inr m'))
       \<and> (ToString h invoiceId = Inl e \<or> ToString h medium = Inl e \<longrightarrow>
            notify h api resourceUrl invoiceId medium = (Thrown TypeError, []))"
proof (intro conjI impI)
  assume "ToString h invoiceId = Inl e \<or> ToString h medium = Inl e"
  then show "notify h api resourceUrl invoiceId medium = (Thrown TypeError, [])"
    using assms only_TypeError by (auto simp: notify_def Let_def split: sum.splits)
next
  assume "is_primitive medium"
  then show "\<exists>m'. ToString h medium = Inr m'" by (rule ToString_of_primitive)
qed (use assms in \<open>simp_all add: notify_def Let_def\<close>)

theorem notify_interpolates_medium_witness:
  "truthy (JStr ''inv_1'') \<and>
   notify plain_host recorder ''/invoices'' (JStr ''inv_1'') JUndefined =
     (Returned (POST, \<lparr>url = ''/invoices/inv_1/notify_by/undefined'', data = None\<rparr>),
      [(POST, \<lparr>url = ''/invoices/inv_1/notify_by/undefined'', data = None\<rparr>)]) \<and>
   notify plain_host recorder ''/invoices'' (JStr ''inv_1'') (JStr ''fax'') =
     (Returned (POST, \<lparr>url = ''/invoices/inv_1/notify_by/fax'', data = None\<rparr>),
      [(POST, \<lparr>url = ''/invoices/inv_1/notify_by/fax'', data = None\<rparr>)]) \<and>
   ToString plain_host (JObj []) = Inr ''[object Object]'' \<and>
   notify plain_host recorder ''/invoices'' (JStr ''inv_1'') (JObj []) =
     (Returned (POST, \<lparr>url = ''/invoices/inv_1/notify_by/[object Object]'', data = None\<rparr>),
      [(POST, \<lparr>url = ''/invoices/inv_1/notify_by/[object Object]'', data = None\<rparr>)]) \<and>
   ToString plain_host (JArr [JStr ''a'', unprintable]) = Inl TypeError \<and>
   notify plain_host recorder ''/invoices'' (JStr ''inv_1'') (JArr [JStr ''a'', unprintable])
     = (Thrown TypeError, [])"
proof -
  have t: "truthy (JStr ''inv_1'')" by simp
  have i: "ToString plain_host (JStr ''inv_1'') = Inr ''inv_1''" by simp
  note o = ToString_examples(2) [of plain_host]
  note a = ToString_examples(5) [of plain_host]
  have 1: "notify plain_host recorder ''/invoices'' (JStr ''inv_1'') JUndefined =
     (Returned (POST, \<lparr>url = ''/invoices/inv_1/notify_by/undefined'', data = None\<rparr>),
      [(POST, \<lparr>url = ''/invoices/inv_1/notify_by/undefined'', data = None\<rparr>)])"
    using notify_interpolates_medium [OF t, where medium = JUndefined and i = "''inv_1''"
        and h = plain_host and api = recorder and resourceUrl = "''/invoices''"]
    by (simp add: recorder_def)
  have 2: "notify plain_host recorder ''/invoices'' (JStr ''inv_1'') (JStr ''fax'') =
     (Returned (POST, \<lparr>url = ''/invoices/inv_1/notify_by/fax'', data = None\<rparr>),
      [(POST, \<lparr>url = ''/invoices/inv_1/notify_by/fax'', data = None\<rparr>)])"
    using notify_interpolates_medium [OF t, where medium = "JStr ''fax''" and i = "''inv_1''"
        and m = "''fax''" and h = plain_host and api = recorder and resourceUrl = "''/invoices''"]
    by (simp add: recorder_def)
  have 3: "notify plain_host recorder ''/invoices'' (JStr ''inv_1'') (JObj []) =
     (Returned (POST, \<lparr>url = ''/invoices/inv_1/notify_by/[object Object]'', data = None\<rparr>),
      [(POST, \<lparr>url = ''/invoices/inv_1/notify_by/[object Object]'', data = None\<rparr>)])"
    using notify_interpolates_medium [OF t, where medium = "JObj []" and i = "''inv_1''"
        and m = "''[object Object]''" and h = plain_host and api = recorder
        and resourceUrl = "''/invoices''", THEN conjunct1, rule_format, OF conjI [OF i o]]
    by (simp add: recorder_def)
  have 4: "notify plain_host recorder ''/invoices'' (JStr ''inv_1'') (JArr [JStr ''a'', unprintable])
     = (Thrown TypeError, [])"
    using notify_interpolates_medium [OF t, where medium = "JArr [JStr ''a'', unprintable]"
        and e = TypeError and h = plain_host and api = recorder
        and resourceUrl = "''/invoices''"] a
    by blast
  from t 1 2 o 3 a 4 show ?thesis by (intro conjI)
qed

text \<open>
  Claim C9 as it is written has one POST for every medium whatsoever. A medium that
  cannot be converted to a string makes the template literal throw, and no request is
  made.
\<close>

theorem notify_unprintable_medium_counterexample:
  "truthy (JStr ''inv_1'') \<and>
   notify plain_host recorder ''/invoices'' (JStr ''inv_1'') unprintable = (Thrown TypeError, [])"
  by (simp add: notify_def unprintable_def)

end
